theory Spec2Isabelle
  imports Main "HOL-Library.Sublist"
begin

section \<open>JavaScript string and array primitives used by the components\<close>

text \<open>
  Strings are sequences of code units. The patterns the components search for
  (\<open>_v2\<close>, \<open>makerdao\<close>) are ASCII, and no unit of a multi-unit character equals
  an ASCII unit, so \<^typ>\<open>string\<close> stands for the JavaScript string.
\<close>

text \<open>\<open>s.startsWith(search)\<close>.\<close>

fun startsWith :: "string \<Rightarrow> string \<Rightarrow> bool" where
  "startsWith s [] = True"
| "startsWith [] (c # cs) = False"
| "startsWith (x # xs) (c # cs) = (x = c \<and> startsWith xs cs)"

text \<open>\<open>s.endsWith(search)\<close>: the last \<open>search.length\<close> units of \<open>s\<close> are \<open>search\<close>.\<close>

definition endsWith :: "string \<Rightarrow> string \<Rightarrow> bool" where
  "endsWith s search =
     (length search \<le> length s \<and> drop (length s - length search) s = search)"

text \<open>
  \<open>s.replace(pattern, replacement)\<close> with a string pattern: only the first
  occurrence of the pattern, scanning from the left, is replaced. (The replacement
  strings of the components contain no \<open>$\<close>, so no replacement pattern is expanded.)
\<close>

fun replace :: "string \<Rightarrow> string \<Rightarrow> string \<Rightarrow> string" where
  "replace [] pattern replacement = (if pattern = [] then replacement else [])"
| "replace (x # xs) pattern replacement =
     (if startsWith (x # xs) pattern
      then replacement @ drop (length pattern) (x # xs)
      else x # replace xs pattern replacement)"

text \<open>\<open>xs.includes(x)\<close>.\<close>

definition array_includes :: "'a list \<Rightarrow> 'a \<Rightarrow> bool" where
  "array_includes xs x = (x \<in> set xs)"

text \<open>
  \<open>xs.splice(start, deleteCount)\<close> for \<open>0 \<le> start\<close>: the array that is left
  after the call (the removed elements, its return value, are not used).
\<close>

definition splice :: "nat \<Rightarrow> nat \<Rightarrow> 'a list \<Rightarrow> 'a list" where
  "splice start deleteCount xs = take start xs @ drop (start + deleteCount) xs"

section \<open>DefiProtocolIcon.vue\<close>

text \<open>The computed \<open>icon\<close> (lines 14 to 23).\<close>

definition icon :: "string \<Rightarrow> string" where
  "icon defiProtocol =
     (if endsWith defiProtocol ''_v2'' then replace defiProtocol ''_v2'' ''''
      else if startsWith defiProtocol ''makerdao'' then ''makerdao''
      else defiProtocol)"

section \<open>HistoryEventTypeForm.vue\<close>

text \<open>
  The entries the components read carry a string \<open>identifier\<close>; it is written
  \<open>identifier'\<close>, the plain name being reserved. The fields a component does not
  read stay in the extension part of the record. \<open>ActionDataEntry\<close> is such an
  entry.
\<close>

record identified =
  identifier' :: string

type_synonym 'a ActionDataEntry = "'a identified_scheme"

text \<open>
  An object with string keys (\<open>Record<string, V>\<close>) is an association list with
  distinct keys, in insertion order; \<open>Object.keys\<close> lists the keys and
  \<open>obj[key]\<close> is \<open>undefined\<close> (\<open>None\<close>) for a key that is not there. (For a
  name that every object inherits, such as \<open>constructor\<close>, \<open>obj[key]\<close> is a function
  or the prototype object, which has no keys of its own: where only the keys of
  the value are read, as below, this is the same as \<open>undefined\<close>.)
\<close>

type_synonym 'v js_record = "(string \<times> 'v) list"

definition Object_keys :: "'v js_record \<Rightarrow> string list" where
  "Object_keys obj = map fst obj"

definition lookup :: "'v js_record \<Rightarrow> string \<Rightarrow> 'v option" where
  "lookup obj k = map_of obj k"

text \<open>
  The computed \<open>historyEventSubTypeFilteredData\<close> (lines 73 to 88). The prop
  \<open>eventType\<close> is a string, so \<open>!eventTypeVal\<close> holds exactly for the empty string;
  an entry of the global mapping is an object, so \<open>globalMappingFound\<close> is truthy
  exactly when the entry is there.
\<close>

definition historyEventSubTypeFilteredData ::
  "string \<Rightarrow> 'a ActionDataEntry list \<Rightarrow> 'v js_record js_record \<Rightarrow> 'a ActionDataEntry list" where
  "historyEventSubTypeFilteredData eventTypeVal allData globalMapping =
     (if eventTypeVal = '''' then allData
      else
        let globalMappingKeys =
              (case lookup globalMapping eventTypeVal of
                 None \<Rightarrow> []
               | Some globalMappingFound \<Rightarrow> Object_keys globalMappingFound)
        in filter (\<lambda>data. array_includes globalMappingKeys (identifier' data)) allData)"

section \<open>Calls to external collaborators\<close>

text \<open>An awaited promise resolves with a value or rejects.\<close>

datatype 'a promise = Resolved 'a | Rejected

text \<open>
  The functions a table view obtains from its collaborators (the pagination
  composable, the stores, \<open>useIgnore\<close>) are not part of the components. A view's
  state records every invocation of one of them, with its argument, in the order
  of the invocations. An optional argument that is left out is \<open>None\<close>. The
  \<open>v-model\<close> bindings of \<open>sort\<close>, \<open>pagination\<close> and \<open>filters\<close> write refs that the
  pagination composable owns; the written value is not recorded.
\<close>

datatype call =
    FetchData
  | RefreshAssetMovements "bool option"
  | RefreshNonFungibleBalances "bool option"
  | Ignore bool
  | SetPage nat
  | UpdateSort
  | UpdatePagination
  | UpdateFilters

section \<open>What the two table views share\<close>

text \<open>
  \<open>loading\<close> is the section's loading flag as the status store has it now;
  \<open>oldValue\<close> is the value of the flag that the watcher of \<open>loading\<close> saw when it
  last ran (when the watcher is set up, the value of the flag at that moment).
\<close>

record view =
  loading :: bool
  oldValue :: bool
  calls :: "call list"

definition invoke :: "call \<Rightarrow> 'a view_scheme \<Rightarrow> 'a view_scheme" where
  "invoke c s = s\<lparr>calls := calls s @ [c]\<rparr>"

definition fetches :: "'a view_scheme \<Rightarrow> nat" where
  "fetches s = count_list (calls s) FetchData"

text \<open>
  The callback of \<open>watch(loading, ...)\<close>, the same in both views
  (DepositsWithdrawalsContent.vue lines 178 to 181, NftBalanceTable.vue lines 132
  to 135).
\<close>

definition watch_loading :: "bool \<Rightarrow> bool \<Rightarrow> 'a view_scheme \<Rightarrow> 'a view_scheme" where
  "watch_loading isLoading wasLoading s =
     (if \<not> isLoading \<and> wasLoading then invoke FetchData s else s)"

text \<open>
  Vue runs the callback of a watcher of a ref when its queue is flushed, at the end
  of a tick: once, with the value the source has then and the value it had when the
  watcher last ran, and only if the two differ. Writes to the flag within a tick
  are therefore seen together.
\<close>

datatype reactive_event = Set_loading bool | Flush

fun vue_step :: "reactive_event \<Rightarrow> 'a view_scheme \<Rightarrow> 'a view_scheme" where
  "vue_step (Set_loading b) s = s\<lparr>loading := b\<rparr>"
| "vue_step Flush s =
     (if loading s \<noteq> oldValue s
      then (watch_loading (loading s) (oldValue s) s)\<lparr>oldValue := loading s\<rparr>
      else s)"

definition run :: "reactive_event list \<Rightarrow> 'a view_scheme \<Rightarrow> 'a view_scheme" where
  "run events s = foldl (\<lambda>s e. vue_step e s) s events"

text \<open>One tick: the writes to the flag made within it, then the flush.\<close>

definition tick :: "bool list \<Rightarrow> 'a view_scheme \<Rightarrow> 'a view_scheme" where
  "tick writes s = run (map Set_loading writes @ [Flush]) s"

text \<open>
  The words of the specification, for comparison: the number of times a history
  of values of the flag goes from true to false.
\<close>

fun true_to_false_transitions :: "bool list \<Rightarrow> nat" where
  "true_to_false_transitions (a # b # bs) =
     (if a \<and> \<not> b then 1 else 0) + true_to_false_transitions (b # bs)"
| "true_to_false_transitions bs = 0"

text \<open>The values of the flag at the flushes of successive ticks, from the value \<open>v\<close>.\<close>

fun sampled :: "bool \<Rightarrow> bool list list \<Rightarrow> bool list" where
  "sampled v [] = []"
| "sampled v (writes # ticks) = last (v # writes) # sampled (last (v # writes)) ticks"

section \<open>DepositsWithdrawalsContent.vue\<close>

record AssetMovementEntry = identified +
  ignoredInAccounting :: bool

text \<open>
  The state of the view: the prop \<open>locationOverview\<close>, the refs
  \<open>showIgnoredAssets\<close>, \<open>selected\<close> and \<open>expanded\<close>, and the page of entries that
  the pagination composable holds (\<open>assetMovements.data\<close>).
\<close>

record DepositsWithdrawalsContent = view +
  locationOverview :: string
  showIgnoredAssets :: bool
  selected :: "AssetMovementEntry list"
  expanded :: "AssetMovementEntry list"
  assetMovements_data :: "AssetMovementEntry list"

definition mainPage :: "'a DepositsWithdrawalsContent_scheme \<Rightarrow> bool" where
  "mainPage s = (locationOverview s = '''')"

text \<open>
  A column of a data table. The field \<open>class\<close> of the source is written \<open>class'\<close>.
  A field the source leaves out is \<open>None\<close>.
\<close>

record DataTableColumn =
  align :: "string option"
  cellClass :: "string option"
  class' :: "string option"
  key :: string
  label :: string
  sortable :: "bool option"

text \<open>
  The computed \<open>tableHeaders\<close> (lines 49 to 102). The translation function \<open>t\<close> of
  the i18n library is a parameter: it takes a message key and the named values.
\<close>

definition DepositsWithdrawalsContent_tableHeaders ::
  "(string \<Rightarrow> string js_record \<Rightarrow> string) \<Rightarrow> 'a DepositsWithdrawalsContent_scheme \<Rightarrow>
     DataTableColumn list" where
  "DepositsWithdrawalsContent_tableHeaders t s =
     (let overview = (\<not> mainPage s);
          headers =
            [\<lparr>align = None,
              cellClass = Some (if \<not> overview then ''!p-0'' else ''!w-0 !max-w-[4rem]''),
              class' = Some (if \<not> overview then ''!p-0'' else ''''),
              key = ''ignoredInAccounting'', label = '''', sortable = None\<rparr>,
             \<lparr>align = Some ''center'', cellClass = Some ''!py-1'',
              class' = Some ''!w-[7.5rem]'',
              key = ''location'', label = t ''common.location'' [], sortable = Some True\<rparr>,
             \<lparr>align = Some (if overview then ''start'' else ''center''),
              cellClass = Some (if overview then ''!pl-0'' else ''py-1''),
              class' = Some (''text-no-wrap'' @ (if overview then '' !pl-0'' else '''')),
              key = ''category'', label = t ''deposits_withdrawals.headers.action'' [],
              sortable = Some True\<rparr>,
             \<lparr>align = None, cellClass = Some ''!py-1'', class' = None,
              key = ''asset'', label = t ''common.asset'' [], sortable = None\<rparr>,
             \<lparr>align = Some ''end'', cellClass = None, class' = None,
              key = ''amount'', label = t ''common.amount'' [], sortable = Some True\<rparr>,
             \<lparr>align = Some ''end'', cellClass = None, class' = None,
              key = ''fee'', label = t ''deposits_withdrawals.headers.fee'' [],
              sortable = Some True\<rparr>,
             \<lparr>align = None, cellClass = None, class' = None,
              key = ''timestamp'', label = t ''common.datetime'' [], sortable = Some True\<rparr>]
      in if overview then splice 1 1 headers else headers)"

text \<open>The computed \<open>extraParams\<close> (lines 104 to 106).\<close>

record ExtraParams =
  excludeIgnoredAssets :: bool

definition extraParams :: "'a DepositsWithdrawalsContent_scheme \<Rightarrow> ExtraParams" where
  "extraParams s = \<lparr>excludeIgnoredAssets = (\<not> showIgnoredAssets s)\<rparr>"

text \<open>
  The writable computed \<open>value\<close> (lines 154 to 167). The setter receives the
  identifiers of the rows to select, or \<open>undefined\<close>.
\<close>

definition value_get :: "'a DepositsWithdrawalsContent_scheme \<Rightarrow> string list option" where
  "value_get s = (if \<not> mainPage s then None else Some (map identifier' (selected s)))"

definition value_set ::
  "string list option \<Rightarrow> 'a DepositsWithdrawalsContent_scheme \<Rightarrow>
     'a DepositsWithdrawalsContent_scheme" where
  "value_set values s =
     s\<lparr>selected :=
         filter (\<lambda>entry. case values of None \<Rightarrow> False
                    | Some vs \<Rightarrow> array_includes vs (identifier' entry))
           (assetMovements_data s)\<rparr>"

text \<open>\<open>onMounted\<close> (lines 173 to 176), given how the awaited \<open>fetchData()\<close> settles.\<close>

definition DepositsWithdrawalsContent_onMounted ::
  "unit promise \<Rightarrow> 'a view_scheme \<Rightarrow> 'a view_scheme" where
  "DepositsWithdrawalsContent_onMounted fetched s =
     (let s1 = invoke FetchData s
      in case fetched of
           Rejected \<Rightarrow> s1
         | Resolved _ \<Rightarrow> invoke (RefreshAssetMovements None) s1)"

text \<open>
  The events of the template and their handlers: the \<open>v-model\<close> of the data table
  on \<open>value\<close>, the button that clears the selection (\<open>selected = []\<close>), the switch
  bound to \<open>showIgnoredAssets\<close> (a click writes the negated value), the refresh
  button (\<open>refreshAssetMovements(true)\<close>), \<open>@ignore\<close>, \<open>@set-page\<close>, the
  \<open>v-model\<close> bindings of \<open>sort\<close>, \<open>pagination\<close> and \<open>filters\<close>, and the
  \<open>v-model\<close> of the data table on \<open>expanded\<close>, which writes the expanded rows.
\<close>

datatype ui_event =
    Update_value "string list option"
  | Clear_selection
  | Toggle_showIgnoredAssets
  | Click_refresh
  | Emit_ignore bool
  | Emit_set_page nat
  | Update_sort
  | Update_pagination
  | Update_filters
  | Update_expanded "AssetMovementEntry list"

fun handle ::
  "ui_event \<Rightarrow> 'a DepositsWithdrawalsContent_scheme \<Rightarrow> 'a DepositsWithdrawalsContent_scheme" where
  "handle (Update_value values) s = value_set values s"
| "handle Clear_selection s = s\<lparr>selected := []\<rparr>"
| "handle Toggle_showIgnoredAssets s = s\<lparr>showIgnoredAssets := (\<not> showIgnoredAssets s)\<rparr>"
| "handle Click_refresh s = invoke (RefreshAssetMovements (Some True)) s"
| "handle (Emit_ignore ignored) s = invoke (Ignore ignored) s"
| "handle (Emit_set_page page) s = invoke (SetPage page) s"
| "handle Update_sort s = invoke UpdateSort s"
| "handle Update_pagination s = invoke UpdatePagination s"
| "handle Update_filters s = invoke UpdateFilters s"
| "handle (Update_expanded rows) s = s\<lparr>expanded := rows\<rparr>"

text \<open>
  The callback handed to \<open>useIgnore\<close> (line 149), which \<open>useIgnore\<close> is to call
  after a bulk action.
\<close>

definition useIgnore_refresh ::
  "'a DepositsWithdrawalsContent_scheme \<Rightarrow> 'a DepositsWithdrawalsContent_scheme" where
  "useIgnore_refresh s = invoke FetchData s"

definition is_selection_change :: "ui_event \<Rightarrow> bool" where
  "is_selection_change e =
     (case e of Update_value _ \<Rightarrow> True | Clear_selection \<Rightarrow> True | _ \<Rightarrow> False)"

text \<open>
  The explicit actions: the switch, the refresh button, bulk ignore, and the page,
  sort, pagination and filter bindings.
\<close>

definition is_explicit_action :: "ui_event \<Rightarrow> bool" where
  "is_explicit_action e =
     (case e of
        Toggle_showIgnoredAssets \<Rightarrow> True
      | Click_refresh \<Rightarrow> True
      | Emit_ignore _ \<Rightarrow> True
      | Emit_set_page _ \<Rightarrow> True
      | Update_sort \<Rightarrow> True
      | Update_pagination \<Rightarrow> True
      | Update_filters \<Rightarrow> True
      | _ \<Rightarrow> False)"

text \<open>
  The option \<open>onUpdateFilters\<close> handed to the pagination composable (lines 130 to
  132), which the composable calls with the query of the route.
\<close>

definition onUpdateFilters ::
  "string js_record \<Rightarrow> 'a DepositsWithdrawalsContent_scheme \<Rightarrow>
     'a DepositsWithdrawalsContent_scheme" where
  "onUpdateFilters query s =
     s\<lparr>showIgnoredAssets := (lookup query ''excludeIgnoredAssets'' = Some ''false'')\<rparr>"

text \<open>
  Modelled from the spec: the Collection Fetcher (\<open>usePaginationFilters\<close>) is not
  among the sources. The specification says of it that the view is "re-fetching
  when inputs change", each fetch being triggered by a discrete event, a filter
  change among them. So: when the extra parameters handed to the fetcher change,
  the fetcher invokes \<open>fetchData\<close> once; when they stay the same, it does nothing.
\<close>

definition usePaginationFilters_watch ::
  "ExtraParams \<Rightarrow> ExtraParams \<Rightarrow> 'a view_scheme \<Rightarrow> 'a view_scheme" where
  "usePaginationFilters_watch params oldParams s =
     (if params \<noteq> oldParams then invoke FetchData s else s)"

text \<open>A click on the switch, followed by the reaction of the fetcher.\<close>

definition toggle_showIgnoredAssets ::
  "'a DepositsWithdrawalsContent_scheme \<Rightarrow> 'a DepositsWithdrawalsContent_scheme" where
  "toggle_showIgnoredAssets s =
     (let s' = handle Toggle_showIgnoredAssets s
      in usePaginationFilters_watch (extraParams s') (extraParams s) s')"

section \<open>NftBalanceTable.vue\<close>

text \<open>
  The enumeration \<open>TableColumn\<close> is declared outside the sources; the view names
  two of its members.
\<close>

datatype TableColumn =
    PERCENTAGE_OF_TOTAL_NET_VALUE
  | PERCENTAGE_OF_TOTAL_CURRENT_GROUP
  | OTHER_COLUMN string

text \<open>
  The computed \<open>tableHeaders\<close> (lines 64 to 117). \<open>visibleColumns\<close> is the entry of
  the frontend settings for the group of the table, \<open>group'\<close> the name of that
  group.
\<close>

definition NftBalanceTable_tableHeaders ::
  "(string \<Rightarrow> string js_record \<Rightarrow> string) \<Rightarrow> string \<Rightarrow> string \<Rightarrow> TableColumn list \<Rightarrow>
     DataTableColumn list" where
  "NftBalanceTable_tableHeaders t currencySymbol group' visibleColumns =
     (let headers =
            [\<lparr>align = None, cellClass = Some ''py-0'', class' = Some ''text-no-wrap w-full'',
              key = ''name'', label = t ''common.name'' [], sortable = Some True\<rparr>,
             \<lparr>align = Some ''end'', cellClass = Some ''py-0'', class' = Some ''text-no-wrap'',
              key = ''priceInAsset'',
              label = t ''nft_balance_table.column.price_in_asset'' [], sortable = None\<rparr>,
             \<lparr>align = Some ''end'', cellClass = Some ''py-0'', class' = Some ''text-no-wrap'',
              key = ''usdPrice'',
              label = t ''common.price_in_symbol'' [(''symbol'', currencySymbol)],
              sortable = Some True\<rparr>];
          headers =
            (if array_includes visibleColumns PERCENTAGE_OF_TOTAL_NET_VALUE
             then headers @
               [\<lparr>align = Some ''end'', cellClass = Some ''py-0'',
                 class' = Some ''text-no-wrap'', key = ''percentageOfTotalNetValue'',
                 label = t ''nft_balance_table.column.percentage'' [], sortable = None\<rparr>]
             else headers);
          headers =
            (if array_includes visibleColumns PERCENTAGE_OF_TOTAL_CURRENT_GROUP
             then headers @
               [\<lparr>align = Some ''end'', cellClass = Some ''py-0'',
                 class' = Some ''text-no-wrap'', key = ''percentageOfTotalCurrentGroup'',
                 label =
                   t ''dashboard_asset_table.headers.percentage_of_total_current_group''
                     [(''group'', group')],
                 sortable = None\<rparr>]
             else headers)
      in headers)"

text \<open>\<open>onMounted\<close> (lines 127 to 130), given how the awaited \<open>fetchData()\<close> settles.\<close>

definition NftBalanceTable_onMounted ::
  "unit promise \<Rightarrow> 'a view_scheme \<Rightarrow> 'a view_scheme" where
  "NftBalanceTable_onMounted fetched s =
     (let s1 = invoke FetchData s
      in case fetched of
           Rejected \<Rightarrow> s1
         | Resolved _ \<Rightarrow> invoke (RefreshNonFungibleBalances None) s1)"

section \<open>The account management dialog\<close>

text \<open>
  The management state the dialog is bound to. The payload \<open>data\<close> is a value of
  any type; \<open>isEqual\<close> of lodash compares two payloads by structure, which is
  equality of the values. The field \<open>chain\<close> of the source is written \<open>chain'\<close>.
\<close>

datatype manage_mode = Add | Edit

record 'd AccountManageState =
  mode :: manage_mode
  chain' :: string
  data :: 'd


text \<open>
  The state of the dialog: the \<open>v-model\<close> (\<open>None\<close> is \<open>undefined\<close>, the closed
  dialog), the refs \<open>stateUpdated\<close> and \<open>errorMessages\<close>, the events emitted so far
  and the arguments of the invocations of \<open>save\<close> so far; and what Vue keeps for
  the watcher of the \<open>v-model\<close>. \<open>oldModel\<close> is the old value of that watcher: the
  state the watcher saw when it last ran, as that object is now. \<open>sameObject\<close>
  says that it is the very object the \<open>v-model\<close> holds now, so that a change of
  the object in place is a change of both. \<open>queued\<close> says that the \<open>v-model\<close> was
  written or changed since the watcher last ran, so that a run is pending.
\<close>

record 'd AccountDialog =
  model :: "'d AccountManageState option"
  oldModel :: "'d AccountManageState option"
  sameObject :: bool
  queued :: bool
  stateUpdated :: bool
  errorMessages :: "string list js_record"
  emitted :: "string list"
  saved :: "'d AccountManageState list"

datatype error = AssertionError | PromiseRejected


text \<open>
  The \<open>v-model\<close> changes in two ways. An assignment (by the parent, the form or
  \<open>dismiss\<close>) puts a new object, or \<open>undefined\<close>, in the place of the present
  value; assigning \<open>undefined\<close> over \<open>undefined\<close> changes nothing and queues
  nothing. A change in place writes fields of the object the \<open>v-model\<close> holds,
  here given by the state the object has afterwards; there is nothing to change
  when the \<open>v-model\<close> is \<open>undefined\<close>, and writing the values the fields have
  queues nothing.
\<close>

definition replace_model ::
  "'d AccountManageState option \<Rightarrow> 'd AccountDialog \<Rightarrow> 'd AccountDialog" where
  "replace_model m s =
     (if m = None \<and> model s = None then s
      else s\<lparr>model := m, sameObject := False, queued := True\<rparr>)"










definition dismiss :: "'d AccountDialog \<Rightarrow> 'd AccountDialog" where
  "dismiss s = replace_model None s"

definition emit :: "string \<Rightarrow> 'd AccountDialog \<Rightarrow> 'd AccountDialog" where
  "emit e s = s\<lparr>emitted := emitted s @ [e]\<rparr>"

text \<open>
  \<open>confirm\<close> (lines 36 to 52). \<open>form\<close> is the template ref at the time of the call:
  \<open>None\<close> when no form is mounted, otherwise how the awaited \<open>validate()\<close> of the
  form settles. \<open>save\<close> gives how the awaited external save settles for a state.
  The result is the error the call ends with, if any, and the state it leaves.
\<close>

definition confirm ::
  "bool promise option \<Rightarrow> ('d AccountManageState \<Rightarrow> bool promise) \<Rightarrow>
     'd AccountDialog \<Rightarrow> (error + unit) \<times> 'd AccountDialog" where
  "confirm form save s =
     (case form of
        None \<Rightarrow> (Inl AssertionError, s)
      | Some validate \<Rightarrow>
          let s1 = s\<lparr>errorMessages := []\<rparr>
          in (case validate of
                Rejected \<Rightarrow> (Inl PromiseRejected, s1)
              | Resolved valid \<Rightarrow>
                  if \<not> valid then (Inr (), s1)
                  else (case model s1 of
                          None \<Rightarrow> (Inl AssertionError, s1)
                        | Some state \<Rightarrow>
                            let s2 = s1\<lparr>saved := saved s1 @ [state]\<rparr>
                            in (case save state of
                                  Rejected \<Rightarrow> (Inl PromiseRejected, s2)
                                | Resolved success \<Rightarrow>
                                    if success
                                    then (Inr (), dismiss (emit ''complete'' s2))
                                    else (Inr (), s2)))))"

text \<open>The props \<open>display\<close> and \<open>prompt-on-close\<close> handed to the dialog frame.\<close>

definition display :: "'d AccountDialog \<Rightarrow> bool" where
  "display s = (model s \<noteq> None)"



section \<open>Properties of the string primitives\<close>

lemma startsWith_prefix: "startsWith s p = prefix p s"
  by (induction s p rule: startsWith.induct) auto

lemma endsWith_suffix: "endsWith s p = suffix p s"
proof
  assume "endsWith s p"
  then have "s = take (length s - length p) s @ p"
    by (metis append_take_drop_id endsWith_def)
  then show "suffix p s"
    by (rule suffixI)
next
  assume "suffix p s"
  then obtain zs where "s = zs @ p"
    by (auto simp: suffix_def)
  then show "endsWith s p"
    by (simp add: endsWith_def)
qed

lemma replace_first_occurrence:
  "prefix p (drop k s) \<Longrightarrow> k \<le> length s \<Longrightarrow>
     \<exists>pre post. s = pre @ p @ post \<and> replace s p r = pre @ r @ post \<and>
       length pre \<le> k \<and> (\<forall>j<length pre. \<not> prefix p (drop j s))"
proof (induction s arbitrary: k)
  case Nil
  then have "p = []" by simp
  then show ?case by simp
next
  case (Cons x xs)
  show ?case
  proof (cases "prefix p (x # xs)")
    case True
    then obtain post where post: "x # xs = p @ post"
      by (auto simp: prefix_def)
    have "replace (x # xs) p r = r @ drop (length p) (x # xs)"
      using True by (simp add: startsWith_prefix)
    also have "drop (length p) (x # xs) = post"
      by (subst post) simp
    finally have "x # xs = [] @ p @ post \<and> replace (x # xs) p r = [] @ r @ post"
      using post by simp
    then show ?thesis
      by (metis le0 less_nat_zero_code list.size(3))
  next
    case False
    with Cons.prems obtain k' where k: "k = Suc k'"
      by (cases k) auto
    with Cons.prems have "prefix p (drop k' xs)" "k' \<le> length xs"
      by simp_all
    from Cons.IH [OF this] obtain pre post where
      IH: "xs = pre @ p @ post" "replace xs p r = pre @ r @ post" "length pre \<le> k'"
        "\<forall>j<length pre. \<not> prefix p (drop j xs)"
      by blast
    have "\<forall>j<length (x # pre). \<not> prefix p (drop j (x # xs))"
    proof (intro allI impI)
      fix j assume "j < length (x # pre)"
      then show "\<not> prefix p (drop j (x # xs))"
        using False IH(4) by (cases j) auto
    qed
    moreover have "x # xs = (x # pre) @ p @ post"
      using IH(1) by simp
    moreover have "replace (x # xs) p r = (x # pre) @ r @ post"
      using False IH(2) by (simp add: startsWith_prefix)
    moreover have "length (x # pre) \<le> k"
      using IH(3) k by simp
    ultimately show ?thesis
      by blast
  qed
qed

section \<open>Properties of the calls of a view\<close>

lemma run_writes:
  "loading (run (map Set_loading ws) s) = last (loading s # ws) \<and>
   oldValue (run (map Set_loading ws) s) = oldValue s \<and>
   calls (run (map Set_loading ws) s) = calls s"
proof (induction ws arbitrary: s)
  case Nil
  show ?case by (simp add: run_def)
next
  case (Cons w ws)
  have "run (map Set_loading (w # ws)) s = run (map Set_loading ws) (s\<lparr>loading := w\<rparr>)"
    by (simp add: run_def)
  with Cons [of "s\<lparr>loading := w\<rparr>"] show ?case
    by simp
qed

lemma run_append: "run (es @ fs) s = run fs (run es s)"
  by (simp add: run_def)

lemma tick_state:
  "loading (tick ws s) = last (loading s # ws) \<and>
   oldValue (tick ws s) = last (loading s # ws) \<and>
   calls (tick ws s) =
     calls s @ (if oldValue s \<and> \<not> last (loading s # ws) then [FetchData] else [])"
proof -
  let ?s = "run (map Set_loading ws) s"
  have t: "tick ws s = vue_step Flush ?s"
    by (simp add: tick_def run_append) (simp add: run_def)
  show ?thesis
    unfolding t using run_writes [of ws s]
    by (auto simp: watch_loading_def invoke_def)
qed

lemma fetches_tick:
  "fetches (tick ws s) =
     fetches s + (if oldValue s \<and> \<not> last (loading s # ws) then 1 else 0)"
  by (simp add: fetches_def tick_state)

lemma fetches_ticks:
  "fetches (foldl (\<lambda>s ws. tick ws s) s ticks) =
     fetches s + true_to_false_transitions (oldValue s # sampled (loading s) ticks)"
proof (induction ticks arbitrary: s)
  case Nil
  show ?case by simp
next
  case (Cons ws ticks)
  let ?v = "last (loading s # ws)"
  have "fetches (foldl (\<lambda>s ws. tick ws s) s (ws # ticks)) =
      fetches (tick ws s) + true_to_false_transitions (?v # sampled ?v ticks)"
    using Cons [of "tick ws s"] by (simp add: tick_state)
  then show ?case
    by (simp add: fetches_tick)
qed

section \<open>Properties of the dialog's operations\<close>












lemma confirm_open:
  "model s = Some state \<Longrightarrow>
     confirm form save s =
       (if form = None then (Inl AssertionError, s)
        else if form = Some Rejected then (Inl PromiseRejected, s\<lparr>errorMessages := []\<rparr>)
        else if form = Some (Resolved False) then (Inr (), s\<lparr>errorMessages := []\<rparr>)
        else if save state = Rejected
          then (Inl PromiseRejected, s\<lparr>errorMessages := [], saved := saved s @ [state]\<rparr>)
        else if save state = Resolved False
          then (Inr (), s\<lparr>errorMessages := [], saved := saved s @ [state]\<rparr>)
        else (Inr (), s\<lparr>errorMessages := [], saved := saved s @ [state],
                emitted := emitted s @ [''complete''], model := None,
                sameObject := False, queued := True\<rparr>))"
  by (cases s)
    (auto simp: confirm_def dismiss_def emit_def replace_model_def Let_def
      split: option.splits promise.splits)

section \<open>The watcher of the loading flag\<close>

text \<open>
  C1, as the code has it. In both table views a run of the watcher, at the flush
  that ends a tick, re-runs the primary fetch exactly once when the flag is false
  at that run and was true when the watcher last ran, and not at all otherwise,
  however often the flag was written within the tick. Over any sequence of ticks
  the fetches number the true-to-false transitions of the flag as sampled at the
  flushes.
\<close>

theorem loading_watcher_fetches:
  "calls (tick writes s) =
     calls s @ (if oldValue s \<and> \<not> last (loading s # writes) then [FetchData] else []) \<and>
   fetches (tick writes s) =
     fetches s + (if oldValue s \<and> \<not> last (loading s # writes) then 1 else 0) \<and>
   fetches (foldl (\<lambda>s ws. tick ws s) s ticks) =
     fetches s + true_to_false_transitions (oldValue s # sampled (loading s) ticks)"
  using tick_state [of writes s] fetches_tick [of writes s] fetches_ticks [of s ticks]
  by simp

text \<open>
  C1 as stated fails: a flag that is false, is set to true and back to false within
  one tick has gone from true to false once, and the watcher, which sees the same
  value as at its last run, fetches nothing.
\<close>

theorem loading_watcher_counterexample:
  "true_to_false_transitions
     (loading \<lparr>loading = False, oldValue = False, calls = []\<rparr> # [True, False]) = 1 \<and>
   fetches (tick [True, False] \<lparr>loading = False, oldValue = False, calls = []\<rparr>) = 0"
  by (simp add: tick_def run_def fetches_def)

section \<open>Confirming the account management dialog\<close>

text \<open>
  C2. For every confirm of the open dialog, the dialog is closed (its state set to
  undefined) and \<open>complete\<close> is emitted if and only if the form validated and the
  external save resolved to true. In every other case the state of the dialog stays
  as it was and the dialog stays open; when save resolves to false, confirm ends
  without error, having only reset the error messages and invoked save.
\<close>

theorem confirm_closes_iff_saved:
  "model s = Some state \<Longrightarrow>
     ((model (snd (confirm form save s)) = None) =
        (form = Some (Resolved True) \<and> save state = Resolved True)) \<and>
     ((emitted (snd (confirm form save s)) = emitted s @ [''complete'']) =
        (form = Some (Resolved True) \<and> save state = Resolved True)) \<and>
     (\<not> (form = Some (Resolved True) \<and> save state = Resolved True) \<longrightarrow>
        model (snd (confirm form save s)) = Some state \<and>
        display (snd (confirm form save s)) \<and>
        stateUpdated (snd (confirm form save s)) = stateUpdated s \<and>
        emitted (snd (confirm form save s)) = emitted s) \<and>
     (form = Some (Resolved True) \<and> save state = Resolved False \<longrightarrow>
        confirm form save s =
          (Inr (), s\<lparr>errorMessages := [], saved := saved s @ [state]\<rparr>))"
proof -
  assume m: "model s = Some state"
  have ex: "form = None \<or> form = Some Rejected \<or> form = Some (Resolved False) \<or>
      form = Some (Resolved True)"
    by (metis (full_types) not_None_eq promise.exhaust)
  have ex2: "save state = Rejected \<or> save state = Resolved False \<or> save state = Resolved True"
    by (metis (full_types) promise.exhaust)
  show ?thesis
    using ex ex2 by (auto simp: confirm_open [OF m] display_def m)
qed

theorem confirm_closes_iff_saved_witness:
  "model \<lparr>model = Some \<lparr>mode = Edit, chain' = ''eth'', data = ''label''\<rparr>, oldModel = None,
      sameObject = False, queued = True, stateUpdated = True,
          errorMessages = [], emitted = [], saved = []\<rparr> =
     Some \<lparr>mode = Edit, chain' = ''eth'', data = ''label''\<rparr> \<and>
   model (snd (confirm (Some (Resolved True)) (\<lambda>state. Resolved True)
     \<lparr>model = Some \<lparr>mode = Edit, chain' = ''eth'', data = ''label''\<rparr>, oldModel = None,
      sameObject = False, queued = True, stateUpdated = True,
      errorMessages = [], emitted = [], saved = []\<rparr>)) = None \<and>
   emitted (snd (confirm (Some (Resolved True)) (\<lambda>state. Resolved True)
     \<lparr>model = Some \<lparr>mode = Edit, chain' = ''eth'', data = ''label''\<rparr>, oldModel = None,
      sameObject = False, queued = True, stateUpdated = True,
      errorMessages = [], emitted = [], saved = []\<rparr>)) = [''complete''] \<and>
   confirm (Some (Resolved True)) (\<lambda>state. Resolved False)
     \<lparr>model = Some \<lparr>mode = Edit, chain' = ''eth'', data = ''label''\<rparr>, oldModel = None,
      sameObject = False, queued = True, stateUpdated = True,
      errorMessages = [], emitted = [], saved = []\<rparr> =
     (Inr (),
      \<lparr>model = Some \<lparr>mode = Edit, chain' = ''eth'', data = ''label''\<rparr>, oldModel = None,
      sameObject = False, queued = True, stateUpdated = True,
       errorMessages = [], emitted = [],
       saved = [\<lparr>mode = Edit, chain' = ''eth'', data = ''label''\<rparr>]\<rparr>)"
proof -
  let ?E = "\<lparr>mode = Edit, chain' = ''eth'', data = ''label''\<rparr>"
  let ?s = "\<lparr>model = Some ?E, oldModel = None, sameObject = False, queued = True,
            stateUpdated = True, errorMessages = [], emitted = [], saved = []\<rparr>"
  have m: "model ?s = Some ?E"
    by simp
  show ?thesis
    using confirm_closes_iff_saved [OF m, of "Some (Resolved True)" "\<lambda>state. Resolved True"]
      confirm_closes_iff_saved [OF m, of "Some (Resolved True)" "\<lambda>state. Resolved False"]
    by simp
qed

section \<open>The dirty flag of the account management dialog\<close>




section \<open>Confirming with an invalid form\<close>

text \<open>
  C4. For every confirm in which the validation of the form reports the form
  invalid, the external save is not invoked, nothing is emitted, and the state of
  the dialog stays as it was, so an open dialog stays open.
\<close>

theorem confirm_invalid_no_save:
  "form = Some (Resolved False) \<Longrightarrow>
     saved (snd (confirm form save s)) = saved s \<and>
     model (snd (confirm form save s)) = model s \<and>
     display (snd (confirm form save s)) = display s \<and>
     emitted (snd (confirm form save s)) = emitted s \<and>
     fst (confirm form save s) = Inr ()"
  by (simp add: confirm_def display_def)

theorem confirm_invalid_no_save_witness:
  "saved (snd (confirm (Some (Resolved False)) (\<lambda>state. Resolved True)
     \<lparr>model = Some \<lparr>mode = Add, chain' = ''eth'', data = ''label''\<rparr>, oldModel = None,
      sameObject = False, queued = True, stateUpdated = False,
      errorMessages = [(''address'', [''required''])], emitted = [], saved = []\<rparr>)) = [] \<and>
   model (snd (confirm (Some (Resolved False)) (\<lambda>state. Resolved True)
     \<lparr>model = Some \<lparr>mode = Add, chain' = ''eth'', data = ''label''\<rparr>, oldModel = None,
      sameObject = False, queued = True, stateUpdated = False,
      errorMessages = [(''address'', [''required''])], emitted = [], saved = []\<rparr>)) =
     Some \<lparr>mode = Add, chain' = ''eth'', data = ''label''\<rparr>"
  using confirm_invalid_no_save [of "Some (Resolved False)" "\<lambda>state. Resolved True"
      "\<lparr>model = Some \<lparr>mode = Add, chain' = ''eth'', data = ''label''\<rparr>, oldModel = None,
      sameObject = False, queued = True, stateUpdated = False,
        errorMessages = [(''address'', [''required''])], emitted = [], saved = []\<rparr>"]
  by simp

section \<open>The columns of the tables\<close>

text \<open>
  C5. The deposits and withdrawals table has its seven columns on the main page
  (empty \<open>locationOverview\<close>) and, when scoped to a location, the same columns in
  the same order without \<open>location\<close>, six in all. The NFT table has its three base
  columns followed by one column for each percentage column that is enabled.
\<close>

theorem tableHeaders_columns:
  "map key (DepositsWithdrawalsContent_tableHeaders t s) =
     (if locationOverview s = ''''
      then [''ignoredInAccounting'', ''location'', ''category'', ''asset'', ''amount'', ''fee'',
            ''timestamp'']
      else [''ignoredInAccounting'', ''category'', ''asset'', ''amount'', ''fee'', ''timestamp'']) \<and>
   length (DepositsWithdrawalsContent_tableHeaders t s) =
     (if locationOverview s = '''' then 7 else 6) \<and>
   map key (NftBalanceTable_tableHeaders t currencySymbol g visibleColumns) =
     [''name'', ''priceInAsset'', ''usdPrice''] @
     (if PERCENTAGE_OF_TOTAL_NET_VALUE \<in> set visibleColumns
      then [''percentageOfTotalNetValue''] else []) @
     (if PERCENTAGE_OF_TOTAL_CURRENT_GROUP \<in> set visibleColumns
      then [''percentageOfTotalCurrentGroup''] else []) \<and>
   length (NftBalanceTable_tableHeaders t currencySymbol g visibleColumns) =
     3 + (if PERCENTAGE_OF_TOTAL_NET_VALUE \<in> set visibleColumns then 1 else 0)
       + (if PERCENTAGE_OF_TOTAL_CURRENT_GROUP \<in> set visibleColumns then 1 else 0)"
  by (simp add: DepositsWithdrawalsContent_tableHeaders_def NftBalanceTable_tableHeaders_def
      mainPage_def splice_def array_includes_def Let_def)

section \<open>Mounting a table view\<close>

text \<open>
  C6. On mount each table view invokes the primary fetch exactly once, first, and
  invokes its refresh (\<open>refreshAssetMovements\<close>, \<open>refreshNonFungibleBalances\<close>,
  without argument) once, after the fetch has resolved; a fetch that rejects is
  followed by no refresh.
\<close>

theorem onMounted_order:
  "calls (DepositsWithdrawalsContent_onMounted (Resolved ()) s) =
     calls s @ [FetchData, RefreshAssetMovements None] \<and>
   calls (DepositsWithdrawalsContent_onMounted Rejected s) = calls s @ [FetchData] \<and>
   fetches (DepositsWithdrawalsContent_onMounted fetched s) = fetches s + 1 \<and>
   calls (NftBalanceTable_onMounted (Resolved ()) s) =
     calls s @ [FetchData, RefreshNonFungibleBalances None] \<and>
   calls (NftBalanceTable_onMounted Rejected s) = calls s @ [FetchData] \<and>
   fetches (NftBalanceTable_onMounted fetched s) = fetches s + 1"
  by (cases fetched)
    (simp_all add: DepositsWithdrawalsContent_onMounted_def NftBalanceTable_onMounted_def
      invoke_def fetches_def)

section \<open>The switch for ignored assets\<close>

text \<open>
  C7. The \<open>excludeIgnoredAssets\<close> flag of the extra parameters is the negation
  of the switch. A click on the switch negates the switch, so the flag changes with
  it, and the fetcher, which re-fetches when its inputs change, invokes the fetch
  exactly once. A query that carries the flag as text, handed to
  \<open>onUpdateFilters\<close>, leaves the parameters as they are and invokes nothing.
\<close>

theorem toggle_showIgnoredAssets_refetch:
  "excludeIgnoredAssets (extraParams s) = (\<not> showIgnoredAssets s) \<and>
   showIgnoredAssets (toggle_showIgnoredAssets s) = (\<not> showIgnoredAssets s) \<and>
   excludeIgnoredAssets (extraParams (toggle_showIgnoredAssets s)) =
     (\<not> showIgnoredAssets (toggle_showIgnoredAssets s)) \<and>
   calls (toggle_showIgnoredAssets s) = calls s @ [FetchData] \<and>
   fetches (toggle_showIgnoredAssets s) = fetches s + 1 \<and>
   extraParams
     (onUpdateFilters
        [(''excludeIgnoredAssets'',
          if excludeIgnoredAssets (extraParams s) then ''true'' else ''false'')] s) =
     extraParams s \<and>
   calls
     (onUpdateFilters
        [(''excludeIgnoredAssets'',
          if excludeIgnoredAssets (extraParams s) then ''true'' else ''false'')] s) =
     calls s"
  by (simp add: toggle_showIgnoredAssets_def usePaginationFilters_watch_def extraParams_def
      invoke_def fetches_def Let_def onUpdateFilters_def lookup_def)

section \<open>Selection and fetching\<close>

text \<open>
  C8. In every state, clearing the selection leaves the selection empty, also
  after rows were selected. Neither selecting rows nor clearing the selection
  invokes an external function or changes an input of the fetcher. Of the events of
  the template, those that do one or the other are exactly the explicit actions
  (the switch, the refresh button, bulk ignore, the page, sort, pagination and
  filter bindings), and no selection change is one of them; expanding a row does
  neither. The callback that \<open>useIgnore\<close> gets for the time after a bulk action
  invokes the fetch.
\<close>

theorem selection_no_fetch:
  "selected (handle Clear_selection s) = [] \<and>
   calls (handle Clear_selection s) = calls s \<and>
   extraParams (handle Clear_selection s) = extraParams s \<and>
   locationOverview (handle Clear_selection s) = locationOverview s \<and>
   selected (handle (Update_value vs) s) =
     filter (\<lambda>entry. \<exists>ids. vs = Some ids \<and> identifier' entry \<in> set ids) (assetMovements_data s) \<and>
   calls (handle (Update_value vs) s) = calls s \<and>
   extraParams (handle (Update_value vs) s) = extraParams s \<and>
   locationOverview (handle (Update_value vs) s) = locationOverview s \<and>
   selected (handle Clear_selection (handle (Update_value vs) s)) = [] \<and>
   calls (handle Clear_selection (handle (Update_value vs) s)) = calls s \<and>
   value_get (handle Clear_selection s) = (if mainPage s then Some [] else None) \<and>
   calls (useIgnore_refresh s) = calls s @ [FetchData] \<and>
   (calls (handle e s) = calls s \<and> extraParams (handle e s) = extraParams s \<and>
    locationOverview (handle e s) = locationOverview s) = (\<not> is_explicit_action e) \<and>
   \<not> (is_selection_change e \<and> is_explicit_action e)"
proof -
  have "filter (\<lambda>entry. case vs of None \<Rightarrow> False | Some ids \<Rightarrow> array_includes ids (identifier' entry)) xs =
      filter (\<lambda>entry. \<exists>ids. vs = Some ids \<and> identifier' entry \<in> set ids) xs" for xs :: "AssetMovementEntry list"
    by (cases vs) (simp_all add: array_includes_def)
  moreover have "(calls (handle e s) = calls s \<and> extraParams (handle e s) = extraParams s \<and>
      locationOverview (handle e s) = locationOverview s) = (\<not> is_explicit_action e)"
    by (cases e) (simp_all add: is_explicit_action_def value_set_def extraParams_def invoke_def)
  moreover have "\<not> (is_selection_change e \<and> is_explicit_action e)"
    by (cases e) (simp_all add: is_explicit_action_def is_selection_change_def)
  ultimately show ?thesis
    by (simp add: value_set_def extraParams_def value_get_def mainPage_def
        useIgnore_refresh_def invoke_def)
qed

section \<open>The icon of a protocol\<close>

text \<open>
  C9. For every protocol string the icon name is: when the protocol ends with
  \<open>_v2\<close>, the protocol with its first occurrence of \<open>_v2\<close> removed (no occurrence
  starts before the removed one), and this case comes first; otherwise
  \<open>makerdao\<close> when the protocol starts with \<open>makerdao\<close>; otherwise the protocol
  itself.
\<close>

theorem icon_cases:
  "(suffix ''_v2'' p \<longrightarrow>
      (\<exists>pre post. p = pre @ ''_v2'' @ post \<and> icon p = pre @ post \<and>
         (\<forall>j<length pre. \<not> prefix ''_v2'' (drop j p)))) \<and>
   (\<not> suffix ''_v2'' p \<and> prefix ''makerdao'' p \<longrightarrow> icon p = ''makerdao'') \<and>
   (\<not> suffix ''_v2'' p \<and> \<not> prefix ''makerdao'' p \<longrightarrow> icon p = p)"
proof (intro conjI impI)
  assume sfx: "suffix ''_v2'' p"
  then obtain zs where p: "p = zs @ ''_v2''"
    by (auto simp: suffix_def)
  then have "prefix ''_v2'' (drop (length zs) p)" "length zs \<le> length p"
    by simp_all
  from replace_first_occurrence [OF this, of "''''"] obtain pre post where
    "p = pre @ ''_v2'' @ post" "replace p ''_v2'' '''' = pre @ post"
    "\<forall>j<length pre. \<not> prefix ''_v2'' (drop j p)"
    by auto
  moreover have "icon p = replace p ''_v2'' ''''"
    using sfx by (simp add: icon_def endsWith_suffix)
  ultimately show "\<exists>pre post. p = pre @ ''_v2'' @ post \<and> icon p = pre @ post \<and>
      (\<forall>j<length pre. \<not> prefix ''_v2'' (drop j p))"
    by metis
next
  assume "\<not> suffix ''_v2'' p \<and> prefix ''makerdao'' p"
  then show "icon p = ''makerdao''"
    by (simp add: icon_def endsWith_suffix startsWith_prefix)
next
  assume "\<not> suffix ''_v2'' p \<and> \<not> prefix ''makerdao'' p"
  then show "icon p = p"
    by (simp add: icon_def endsWith_suffix startsWith_prefix)
qed

theorem icon_cases_witness:
  "suffix ''_v2'' ''yearn_vaults_v2'' \<and>
   (\<exists>pre post. ''yearn_vaults_v2'' = pre @ ''_v2'' @ post \<and>
      icon ''yearn_vaults_v2'' = pre @ post \<and>
      (\<forall>j<length pre. \<not> prefix ''_v2'' (drop j ''yearn_vaults_v2''))) \<and>
   \<not> suffix ''_v2'' ''makerdao_dsr'' \<and> prefix ''makerdao'' ''makerdao_dsr'' \<and>
   icon ''makerdao_dsr'' = ''makerdao'' \<and>
   \<not> suffix ''_v2'' ''aave'' \<and> \<not> prefix ''makerdao'' ''aave'' \<and> icon ''aave'' = ''aave''"
proof -
  have a: "suffix ''_v2'' ''yearn_vaults_v2''"
    by (simp add: endsWith_suffix [symmetric] endsWith_def)
  have b: "\<not> suffix ''_v2'' ''makerdao_dsr''" "prefix ''makerdao'' ''makerdao_dsr''"
    by (simp_all add: endsWith_suffix [symmetric] endsWith_def)
  have c: "\<not> suffix ''_v2'' ''aave''" "\<not> prefix ''makerdao'' ''aave''"
    by (simp_all add: endsWith_suffix [symmetric] endsWith_def)
  show ?thesis
    using a b c icon_cases [of "''yearn_vaults_v2''"] icon_cases [of "''makerdao_dsr''"]
      icon_cases [of "''aave''"]
    by blast
qed

section \<open>The subtype options of the history event form\<close>

text \<open>
  C10. For the empty event type the options are the full subtype list. For any
  other event type they are the subtypes whose identifier is a key of the entry of
  the global mapping for that event type, in the order of the full list; an event
  type without an entry in the global mapping gives no options.
\<close>

theorem historyEventSubTypeFilteredData_options:
  "historyEventSubTypeFilteredData '''' allData globalMapping = allData \<and>
   (eventType \<noteq> '''' \<longrightarrow>
      historyEventSubTypeFilteredData eventType allData globalMapping =
        filter (\<lambda>d. \<exists>found. lookup globalMapping eventType = Some found \<and>
                        lookup found (identifier' d) \<noteq> None) allData \<and>
      subseq (historyEventSubTypeFilteredData eventType allData globalMapping) allData) \<and>
   (eventType \<noteq> '''' \<and> lookup globalMapping eventType = None \<longrightarrow>
      historyEventSubTypeFilteredData eventType allData globalMapping = [])"
proof -
  have keys: "array_includes (Object_keys found) k = (lookup found k \<noteq> None)"
    for found :: "'b js_record" and k
    by (simp add: array_includes_def Object_keys_def lookup_def map_of_eq_None_iff)
  have flt: "historyEventSubTypeFilteredData eventType allData globalMapping =
      filter (\<lambda>d. \<exists>found. lookup globalMapping eventType = Some found \<and>
                      lookup found (identifier' d) \<noteq> None) allData"
    if "eventType \<noteq> ''''"
  proof (cases "lookup globalMapping eventType")
    case None
    with that show ?thesis
      by (simp add: historyEventSubTypeFilteredData_def array_includes_def)
  next
    case (Some found)
    with that show ?thesis
      by (simp add: historyEventSubTypeFilteredData_def keys)
  qed
  have none: "historyEventSubTypeFilteredData eventType allData globalMapping = []"
    if "eventType \<noteq> ''''" "lookup globalMapping eventType = None"
    using that by (simp add: historyEventSubTypeFilteredData_def array_includes_def)
  have sub: "subseq (historyEventSubTypeFilteredData eventType allData globalMapping) allData"
    if "eventType \<noteq> ''''"
    using that by (simp add: historyEventSubTypeFilteredData_def Let_def)
  show ?thesis
    using flt none sub by (simp add: historyEventSubTypeFilteredData_def)
qed

theorem historyEventSubTypeFilteredData_options_witness:
  "''trade'' \<noteq> '''' \<and>
   historyEventSubTypeFilteredData ''trade''
     [\<lparr>identifier' = ''fee''\<rparr>, \<lparr>identifier' = ''reward''\<rparr>, \<lparr>identifier' = ''spend''\<rparr>]
     [(''trade'', [(''spend'', ()), (''fee'', ())]), (''staking'', [(''reward'', ())])] =
     [\<lparr>identifier' = ''fee''\<rparr>, \<lparr>identifier' = ''spend''\<rparr>] \<and>
   ''gas'' \<noteq> '''' \<and>
   lookup [(''trade'', [(''spend'', ()), (''fee'', ())]), (''staking'', [(''reward'', ())])] ''gas'' = None \<and>
   historyEventSubTypeFilteredData ''gas''
     [\<lparr>identifier' = ''fee''\<rparr>, \<lparr>identifier' = ''reward''\<rparr>, \<lparr>identifier' = ''spend''\<rparr>]
     [(''trade'', [(''spend'', ()), (''fee'', ())]), (''staking'', [(''reward'', ())])] = []"
proof -
  let ?all = "[\<lparr>identifier' = ''fee''\<rparr>, \<lparr>identifier' = ''reward''\<rparr>, \<lparr>identifier' = ''spend''\<rparr>]"
  let ?gm = "[(''trade'', [(''spend'', ()), (''fee'', ())]), (''staking'', [(''reward'', ())])]"
  have n: "lookup ?gm ''gas'' = None"
    by (simp add: lookup_def)
  have "historyEventSubTypeFilteredData ''trade'' ?all ?gm =
      filter (\<lambda>d. \<exists>found. lookup ?gm ''trade'' = Some found \<and>
                      lookup found (identifier' d) \<noteq> None) ?all"
    using historyEventSubTypeFilteredData_options [of ?all ?gm "''trade''"] by simp
  also have "\<dots> = [\<lparr>identifier' = ''fee''\<rparr>, \<lparr>identifier' = ''spend''\<rparr>]"
    by (simp add: lookup_def)
  finally have a: "historyEventSubTypeFilteredData ''trade'' ?all ?gm =
      [\<lparr>identifier' = ''fee''\<rparr>, \<lparr>identifier' = ''spend''\<rparr>]" .
  have b: "historyEventSubTypeFilteredData ''gas'' ?all ?gm = []"
    using historyEventSubTypeFilteredData_options [of ?all ?gm "''gas''"] n by simp
  show ?thesis
    using a b n by simp
qed

end
